theory Spec2Isabelle
  imports Main
begin

section \<open>JavaScript values\<close>

text \<open>
  The values the program writes down and sends: JSON values. An object literal is the
  ordered list of its properties. The numbers the program uses are integers.
\<close>

datatype json =
    JNull
  | JBool bool
  | JNumber int
  | JString string
  | JArray "json list"
  | JObject "(string \<times> json) list"

section \<open>The API service (packages/be/src/index.ts)\<close>

subsection \<open>Requests, responses and the part of Hono the service uses\<close>

text \<open>
  A request as Hono receives it, that is the \<open>Request\<close> object the runtime has built:
  its method, and the path of \<open>request.url\<close> as it is written there (from the first
  slash after the host up to the query string, percent-escapes still in place; whatever
  the runtime's URL parser does to the request target, such as resolving dot segments,
  has happened before), together with the query string and the headers, which no handler
  of the service reads.
\<close>

record request =
  req_method :: string
  req_path :: string
  req_query :: string
  req_headers :: "(string \<times> string) list"

text \<open>
  A response is its status and its body. \<open>TextBody\<close> is a \<open>text/plain\<close> body,
  \<open>JsonBody v\<close> an \<open>application/json\<close> body that is the serialisation of \<open>v\<close>,
  \<open>NoBody\<close> the null body.
\<close>

datatype body = NoBody | TextBody string | JsonBody json

record response =
  status :: nat
  body :: body

text \<open>
  \<open>c.text(s)\<close> and \<open>c.json(v)\<close> of Hono's context, with the status argument (200 when
  the call gives none) written out.
\<close>

definition c_text :: "string \<Rightarrow> nat \<Rightarrow> response" where
  "c_text s st = \<lparr>status = st, body = TextBody s\<rparr>"

definition c_json :: "json \<Rightarrow> nat \<Rightarrow> response" where
  "c_json v st = \<lparr>status = st, body = JsonBody v\<rparr>"

text \<open>
  A handler is a function of the request context. The handlers of the service are
  closures over the variables of their module, so a handler takes the module's variables
  \<open>'m\<close> and returns them with its response: a handler that assigned to one of them would
  return a changed \<open>'m\<close>.
\<close>

type_synonym 'm handler = "'m \<Rightarrow> request \<Rightarrow> response \<times> 'm"

record 'm Hono =
  routes :: "(string \<times> string \<times> 'm handler) list"
  notFoundHandler :: "'m handler"

text \<open>
  \<open>new Hono()\<close>: no route, and the framework's default not-found handler, which answers
  \<open>c.text('404 Not Found', 404)\<close>.
\<close>

definition new_Hono :: "'m Hono" where
  "new_Hono = \<lparr>routes = [], notFoundHandler = (\<lambda>m c. (c_text ''404 Not Found'' 404, m))\<rparr>"

text \<open>\<open>app.get(path, handler)\<close> registers the handler for the method GET and the path.\<close>

definition get :: "'m Hono \<Rightarrow> string \<Rightarrow> 'm handler \<Rightarrow> 'm Hono" where
  "get a p h = a\<lparr>routes := routes a @ [(''GET'', p, h)]\<rparr>"

subsection \<open>The path Hono routes on\<close>

text \<open>
  Hono does not route on the path as written: \<open>getPath\<close> percent-decodes a path that
  holds a \<open>%\<close> with JavaScript's \<open>decodeURI\<close>. Strings are byte strings here: the
  path of a URL is ASCII, and a decoded character outside ASCII is written as the bytes of
  its UTF-8 encoding.

  \<open>ParseHexOctet\<close> reads the two hexadecimal digits of an escape.
\<close>

definition hex_digit :: "char \<Rightarrow> nat option" where
  "hex_digit c =
     (let n = (of_char c :: nat) in
      if 48 \<le> n \<and> n \<le> 57 then Some (n - 48)
      else if 65 \<le> n \<and> n \<le> 70 then Some (n - 55)
      else if 97 \<le> n \<and> n \<le> 102 then Some (n - 87)
      else None)"

definition ParseHexOctet :: "char \<Rightarrow> char \<Rightarrow> nat option" where
  "ParseHexOctet h l =
     (case hex_digit h of
        None \<Rightarrow> None
      | Some a \<Rightarrow> (case hex_digit l of None \<Rightarrow> None | Some b \<Rightarrow> Some (16 * a + b)))"

text \<open>The characters whose escapes \<open>decodeURI\<close> leaves as they are written.\<close>

definition reserved :: string where
  "reserved = '';/?:@&=+$,#''"

text \<open>
  The well-formed UTF-8 encodings of one character in two, three and four bytes: no
  overlong form, no surrogate, nothing above U+10FFFF.
\<close>

definition continuation :: "nat \<Rightarrow> bool" where
  "continuation b = (128 \<le> b \<and> b \<le> 191)"

fun valid_utf8 :: "nat list \<Rightarrow> bool" where
  "valid_utf8 [b0, b1] = (194 \<le> b0 \<and> b0 \<le> 223 \<and> continuation b1)"
| "valid_utf8 [b0, b1, b2] =
     (continuation b2 \<and>
      (b0 = 224 \<and> 160 \<le> b1 \<and> b1 \<le> 191
       \<or> (225 \<le> b0 \<and> b0 \<le> 236 \<or> 238 \<le> b0 \<and> b0 \<le> 239) \<and> continuation b1
       \<or> b0 = 237 \<and> 128 \<le> b1 \<and> b1 \<le> 159))"
| "valid_utf8 [b0, b1, b2, b3] =
     (continuation b2 \<and> continuation b3 \<and>
      (b0 = 240 \<and> 144 \<le> b1 \<and> b1 \<le> 191
       \<or> 241 \<le> b0 \<and> b0 \<le> 243 \<and> continuation b1
       \<or> b0 = 244 \<and> 128 \<le> b1 \<and> b1 \<le> 143))"
| "valid_utf8 bs = False"

text \<open>
  The \<open>Decode\<close> operation of the language standard, which \<open>decodeURI\<close> runs with the
  reserved characters: \<open>None\<close> is the \<open>URIError\<close> it throws. \<open>octets\<close> are the bytes read
  so far of a character of several bytes, \<open>need\<close> the number of its bytes still to come.
  An escape below 128 is its character, or stays as written when that is reserved; a
  first byte from 192 to 247 opens a character of two, three or four bytes, each given by
  an escape; anything else is an error.
\<close>

fun Decode :: "nat list \<Rightarrow> nat \<Rightarrow> string \<Rightarrow> string option" where
  "Decode octets need [] = (if need = 0 then Some [] else None)"
| "Decode octets need (c # cs) =
     (if c \<noteq> CHR ''%'' then
        (if need = 0 then map_option ((#) c) (Decode [] 0 cs) else None)
      else (case cs of
        h # l # rest \<Rightarrow>
          (case ParseHexOctet h l of
             None \<Rightarrow> None
           | Some b \<Rightarrow>
               if need = 0 then
                 (if b < 128 then
                    (if char_of b \<in> set reserved
                     then map_option ((@) [c, h, l]) (Decode [] 0 rest)
                     else map_option ((#) (char_of b)) (Decode [] 0 rest))
                  else if 192 \<le> b \<and> b < 224 then Decode [b] 1 rest
                  else if 224 \<le> b \<and> b < 240 then Decode [b] 2 rest
                  else if 240 \<le> b \<and> b < 248 then Decode [b] 3 rest
                  else None)
               else if need = 1 then
                 (if valid_utf8 (octets @ [b])
                  then map_option ((@) (map char_of (octets @ [b]))) (Decode [] 0 rest)
                  else None)
               else Decode (octets @ [b]) (need - 1) rest)
      | _ \<Rightarrow> None))"

definition decodeURI :: "string \<Rightarrow> string option" where
  "decodeURI s = Decode [] 0 s"

text \<open>
  Hono's \<open>tryDecodeURI\<close>: \<open>decodeURI\<close> of the whole string, and when that throws, of
  each longest run of escapes \<open>%XX\<close> on its own, a run that throws staying as written
  (\<open>str.replace(/(?:%[0-9A-Fa-f]{2})+/g, ...)\<close>). \<open>run\<close> is the run read so far.
\<close>

definition decode_run :: "string \<Rightarrow> string" where
  "decode_run run =
     (if run = [] then [] else case decodeURI run of Some d \<Rightarrow> d | None \<Rightarrow> run)"

fun replace_runs :: "string \<Rightarrow> string \<Rightarrow> string" where
  "replace_runs run (c # h # l # rest) =
     (if c = CHR ''%'' \<and> ParseHexOctet h l \<noteq> None
      then replace_runs (run @ [c, h, l]) rest
      else decode_run run @ c # replace_runs [] (h # l # rest))"
| "replace_runs run (c # cs) = decode_run run @ c # replace_runs [] cs"
| "replace_runs run [] = decode_run run"

definition tryDecodeURI :: "string \<Rightarrow> string" where
  "tryDecodeURI s = (case decodeURI s of Some d \<Rightarrow> d | None \<Rightarrow> replace_runs [] s)"

text \<open>\<open>path.replace(/%25/g, '%2525')\<close>: an escaped percent sign stays escaped.\<close>

fun escape25 :: "string \<Rightarrow> string" where
  "escape25 (c # d # e # rest) =
     (if [c, d, e] = ''%25'' then ''%2525'' @ escape25 rest else c # escape25 (d # e # rest))"
| "escape25 s = s"

text \<open>
  \<open>getPath(request)\<close>: the path as written when it holds no \<open>%\<close>, and otherwise
  \<open>tryDecodeURI\<close> of it.
\<close>

definition getPath :: "request \<Rightarrow> string" where
  "getPath c =
     (if CHR ''%'' \<in> set (req_path c) then tryDecodeURI (escape25 (req_path c))
      else req_path c)"

subsection \<open>Routing\<close>

text \<open>
  The router: the first registered route with this method and this path. The paths the
  service registers are static (no parameter, no wildcard) and the router is strict, so a
  path matches when it is the same string.
\<close>

fun match_route :: "(string \<times> string \<times> 'm handler) list \<Rightarrow> string \<Rightarrow> string \<Rightarrow> 'm handler option" where
  "match_route [] m p = None"
| "match_route ((m', p', h) # rs) m p =
     (if m' = m \<and> p' = p then Some h else match_route rs m p)"

definition dispatch :: "'m Hono \<Rightarrow> string \<Rightarrow> request \<Rightarrow> 'm \<Rightarrow> response \<times> 'm" where
  "dispatch a m c vars =
     (case match_route (routes a) m (getPath c) of
        Some h \<Rightarrow> h vars c
      | None \<Rightarrow> notFoundHandler a vars c)"

text \<open>
  \<open>app.fetch(request)\<close>. Hono answers a HEAD request by dispatching it as a GET request
  and dropping the body of the response: \<open>new Response(null, response)\<close> keeps the status.
\<close>

definition Hono_fetch :: "'m Hono \<Rightarrow> request \<Rightarrow> 'm \<Rightarrow> response \<times> 'm" where
  "Hono_fetch a c vars =
     (if req_method c = ''HEAD''
      then (case dispatch a ''GET'' c vars of (r, vars') \<Rightarrow> (r\<lparr>body := NoBody\<rparr>, vars'))
      else dispatch a (req_method c) c vars)"

subsection \<open>The module\<close>

text \<open>The one variable of the module that a handler reads: \<open>const todos = [...]\<close>.\<close>

record module_vars =
  todos :: json

definition initial :: module_vars where
  "initial = \<lparr>todos = JArray
     [JObject [(''id'', JNumber 1), (''name'', JString ''Alice'')],
      JObject [(''id'', JNumber 2), (''name'', JString ''Bob'')],
      JObject [(''id'', JNumber 3), (''name'', JString ''Hehe'')]]\<rparr>"

text \<open>
  \<open>const app = new Hono()\<close> followed by the two \<open>app.get\<close> calls, in the order of the
  source.
\<close>

definition app :: "module_vars Hono" where
  "app =
     get
       (get new_Hono ''/'' (\<lambda>vars c. (c_text ''Hello Hono!'' 200, vars)))
       ''/api/todos'' (\<lambda>vars c. (c_json (todos vars) 200, vars))"

text \<open>
  The default export \<open>{ fetch: app.fetch, port: 3333 }\<close>, which the runtime serves. The
  module is evaluated in the environment of its process (the variables of
  \<open>process.env\<close>), which is made a parameter here.
\<close>

record 'm server =
  fetch :: "request \<Rightarrow> 'm \<Rightarrow> response \<times> 'm"
  port :: nat

definition default_export :: "(string \<rightharpoonup> string) \<Rightarrow> module_vars server" where
  "default_export env = \<lparr>fetch = Hono_fetch app, port = 3333\<rparr>"

text \<open>
  One process: the module's variables start as \<open>initial\<close>, and the runtime hands each
  request that arrives to \<open>fetch\<close>, one after the other. \<open>run vars cs\<close> is the state of the
  variables after the requests \<open>cs\<close>.
\<close>

fun run :: "module_vars \<Rightarrow> request list \<Rightarrow> module_vars" where
  "run vars [] = vars"
| "run vars (c # cs) = run (snd (Hono_fetch app c vars)) cs"

section \<open>The client (the route /demo/tanstack-query)\<close>

subsection \<open>Errors, responses, time\<close>

text \<open>
  What a \<open>throw\<close> or a rejected promise carries: an object of the class \<open>Error\<close> or of one
  of its subclasses, with its message. \<open>fetch\<close> rejects with a \<open>TypeError\<close> when the
  network fails, \<open>response.json()\<close> with a \<open>SyntaxError\<close> when the body is not JSON.
\<close>

datatype js_error = Error string | TypeError string | SyntaxError string

fun message :: "js_error \<Rightarrow> string" where
  "message (Error m) = m"
| "message (TypeError m) = m"
| "message (SyntaxError m) = m"

text \<open>
  The \<open>Response\<close> that \<open>fetch\<close> resolves to, as far as \<open>fetchTodos\<close> reads it: its
  status, and what \<open>response.json()\<close> resolves to (the parsed body) or rejects with. The
  type \<open>'v\<close> of parsed bodies is left open.
\<close>

record 'v Response =
  res_status :: nat
  res_json :: "js_error + 'v"

text \<open>\<open>response.ok\<close>: the status is in the range 200 to 299.\<close>

definition ok :: "'v Response \<Rightarrow> bool" where
  "ok r = (200 \<le> res_status r \<and> res_status r \<le> 299)"

text \<open>
  The world of the client: the clock in milliseconds, and the delays that have been
  awaited so far.
\<close>

record world =
  now :: nat
  slept :: "nat list"

text \<open>
  Modelled from the spec: \<open>sleep\<close> is imported from \<open>@/lib/utils\<close>, which is not among
  the source files. The spec calls it an artificial delay injected after the response is
  received: awaiting \<open>sleep(ms)\<close> resumes \<open>ms\<close> milliseconds later.
\<close>

definition sleep :: "nat \<Rightarrow> world \<Rightarrow> world" where
  "sleep ms w = w\<lparr>now := now w + ms, slept := slept w @ [ms]\<rparr>"

subsection \<open>fetchTodos\<close>

text \<open>
  The global \<open>fetch\<close> is the parameter \<open>net\<close>: awaited on a URL it takes the world to a
  later one and resolves to a response or rejects. An \<open>await\<close> of a rejected promise
  throws, which ends the function with that error.
\<close>

type_synonym 'v fetch_fn = "string \<Rightarrow> world \<Rightarrow> (js_error + 'v Response) \<times> world"

definition fetchTodos :: "'v fetch_fn \<Rightarrow> world \<Rightarrow> (js_error + 'v) \<times> world" where
  "fetchTodos net w =
     (case net ''/api/todos'' w of
        (Inl e, w1) \<Rightarrow> (Inl e, w1)
      | (Inr response, w1) \<Rightarrow>
          (if \<not> ok response then (Inl (Error ''Network response was not ok''), w1)
           else (let w2 = sleep 1000 w1 in (res_json response, w2))))"

text \<open>\<open>Array.isArray\<close> on a JSON value, to tell the bodies that are no arrays.\<close>

fun is_array :: "json \<Rightarrow> bool" where
  "is_array (JArray xs) = True"
| "is_array _ = False"

text \<open>
  A mocked \<open>fetch\<close>, as a test of the client would install it: it resolves to the given
  response after the given number of milliseconds.
\<close>

definition mock_fetch :: "'v Response \<Rightarrow> nat \<Rightarrow> 'v fetch_fn" where
  "mock_fetch r latency = (\<lambda>url w. (Inr r, w\<lparr>now := now w + latency\<rparr>))"

subsection \<open>The component\<close>

text \<open>
  The record type \<open>{ id: number; name: string }\<close> that \<open>fetchTodos\<close> declares for the
  elements of its result.
\<close>

record todo =
  id' :: int
  name :: string

text \<open>
  What the component takes from \<open>useQuery\<close>: \<open>data\<close> (\<open>None\<close> is \<open>undefined\<close>),
  \<open>isLoading\<close> and \<open>error\<close> (\<open>None\<close> is \<open>null\<close>).
\<close>

record query_result =
  data :: "todo list option"
  isLoading :: bool
  error :: "js_error option"

text \<open>
  What a component renders: elements with their attributes and children, and text. The
  \<open>key\<close> of a list item is React's own and no attribute of the element.
\<close>

datatype node = Element string "(string \<times> string) list" "node list" | TextNode string

definition TanStackQueryDemo :: "query_result \<Rightarrow> node" where
  "TanStackQueryDemo q =
     (if isLoading q then
        Element ''div''
          [(''className'', ''flex items-center justify-center min-h-screen bg-linear-to-br from-purple-100 to-blue-100 p-4 text-white''),
           (''style.backgroundImage'', ''radial-gradient(50% 50% at 95% 5%, #f4a460 0%, #8b4513 70%, #1a0f0a 100%)'')]
          [Element ''div''
             [(''className'', ''w-full max-w-2xl p-8 rounded-xl backdrop-blur-md bg-black/50 shadow-xl border-8 border-black/10'')]
             [Element ''h1'' [(''className'', ''text-2xl mb-4'')] [TextNode ''Loading...'']]]
      else (case error q of
        Some e \<Rightarrow>
        Element ''div''
          [(''className'', ''flex items-center justify-center min-h-screen bg-linear-to-br from-purple-100 to-blue-100 p-4 text-white''),
           (''style.backgroundImage'', ''radial-gradient(50% 50% at 95% 5%, #f4a460 0%, #8b4513 70%, #1a0f0a 100%)'')]
          [Element ''div''
             [(''className'', ''w-full max-w-2xl p-8 rounded-xl backdrop-blur-md bg-black/50 shadow-xl border-8 border-black/10'')]
             [Element ''h1'' [(''className'', ''text-2xl mb-4'')] [TextNode ''Error: '', TextNode (message e)]]]
      | None \<Rightarrow>
        Element ''div''
          [(''className'', ''flex items-center justify-center min-h-screen bg-linear-to-br from-purple-100 to-blue-100 p-4 text-white''),
           (''style.backgroundImage'', ''radial-gradient(50% 50% at 95% 5%, #f4a460 0%, #8b4513 70%, #1a0f0a 100%)'')]
          [Element ''div''
             [(''className'', ''w-full max-w-2xl p-8 rounded-xl backdrop-blur-md bg-black/50 shadow-xl border-8 border-black/10'')]
             [Element ''h1'' [(''className'', ''text-2xl mb-4'')]
                [TextNode ''TanStack Query - Fetch from Backend''],
              Element ''ul'' [(''className'', ''mb-4 space-y-2'')]
                (case data q of
                   None \<Rightarrow> []
                 | Some items \<Rightarrow> map
                     (\<lambda>todo. Element ''li''
                        [(''className'', ''bg-white/10 border border-white/20 rounded-lg p-3 backdrop-blur-sm shadow-md'')]
                        [Element ''span'' [(''className'', ''text-lg text-white'')] [TextNode (name todo)]]) items)]]))"

subsection \<open>The three presentations\<close>

text \<open>
  The three presentations the spec names, each the same frame around its own content: the
  loading panel, the error panel with a message, and the list view of the records.
\<close>

definition panel :: "node list \<Rightarrow> node" where
  "panel content =
     Element ''div''
       [(''className'', ''flex items-center justify-center min-h-screen bg-linear-to-br from-purple-100 to-blue-100 p-4 text-white''),
        (''style.backgroundImage'', ''radial-gradient(50% 50% at 95% 5%, #f4a460 0%, #8b4513 70%, #1a0f0a 100%)'')]
       [Element ''div''
          [(''className'', ''w-full max-w-2xl p-8 rounded-xl backdrop-blur-md bg-black/50 shadow-xl border-8 border-black/10'')]
          content]"

definition loading_panel :: node where
  "loading_panel = panel [Element ''h1'' [(''className'', ''text-2xl mb-4'')] [TextNode ''Loading...'']]"

definition error_panel :: "string \<Rightarrow> node" where
  "error_panel msg =
     panel [Element ''h1'' [(''className'', ''text-2xl mb-4'')] [TextNode ''Error: '', TextNode msg]]"

definition list_item :: "todo \<Rightarrow> node" where
  "list_item t =
     Element ''li''
       [(''className'', ''bg-white/10 border border-white/20 rounded-lg p-3 backdrop-blur-sm shadow-md'')]
       [Element ''span'' [(''className'', ''text-lg text-white'')] [TextNode (name t)]]"

definition list_view :: "todo list option \<Rightarrow> node" where
  "list_view d =
     panel
       [Element ''h1'' [(''className'', ''text-2xl mb-4'')]
          [TextNode ''TanStack Query - Fetch from Backend''],
        Element ''ul'' [(''className'', ''mb-4 space-y-2'')]
          (case d of None \<Rightarrow> [] | Some ts \<Rightarrow> map list_item ts)]"

section \<open>Properties of the API service\<close>

lemma routes_app:
  "map (\<lambda>(m, p, h). (m, p)) (routes app) = [(''GET'', ''/''), (''GET'', ''/api/todos'')]"
  by (simp add: app_def get_def new_Hono_def)

lemma getPath_plain: "CHR ''%'' \<notin> set (req_path c) \<Longrightarrow> getPath c = req_path c"
  by (simp add: getPath_def)

lemma getPath_root: "req_path c = ''/'' \<Longrightarrow> getPath c = ''/''"
  by (simp add: getPath_def)

lemma getPath_todos: "req_path c = ''/api/todos'' \<Longrightarrow> getPath c = ''/api/todos''"
  by (simp add: getPath_def)

lemma dispatch_root:
  "getPath c = ''/'' \<Longrightarrow> dispatch app ''GET'' c vars = (c_text ''Hello Hono!'' 200, vars)"
  by (simp add: dispatch_def app_def get_def new_Hono_def)

lemma dispatch_todos:
  "getPath c = ''/api/todos'' \<Longrightarrow>
   dispatch app ''GET'' c vars = (c_json (todos vars) 200, vars)"
  by (simp add: dispatch_def app_def get_def new_Hono_def)

lemma dispatch_not_found:
  "\<not> (m = ''GET'' \<and> (getPath c = ''/'' \<or> getPath c = ''/api/todos'')) \<Longrightarrow>
   dispatch app m c vars = (c_text ''404 Not Found'' 404, vars)"
  by (auto simp add: dispatch_def app_def get_def new_Hono_def)

lemma dispatch_keeps_vars: "snd (dispatch app m c vars) = vars"
  by (simp add: dispatch_def app_def get_def new_Hono_def)

lemma fetch_keeps_vars: "snd (Hono_fetch app c vars) = vars"
proof (cases "req_method c = ''HEAD''")
  case True
  have "snd (dispatch app ''GET'' c vars) = vars"
    by (rule dispatch_keeps_vars)
  with True show ?thesis
    by (cases "dispatch app ''GET'' c vars") (simp add: Hono_fetch_def)
next
  case False
  then show ?thesis
    by (simp add: Hono_fetch_def dispatch_keeps_vars)
qed

lemma run_keeps_vars: "run vars cs = vars"
  by (induction cs arbitrary: vars) (simp_all add: fetch_keeps_vars)

text \<open>
  C4. Every GET request to \<open>/\<close> is answered with status 200 and the plain-text body
  \<open>Hello Hono!\<close>, whatever the query string, the headers, the environment of the
  process and the state of the module's variables.
\<close>

theorem get_root_hello:
  assumes "req_method c = ''GET''" and "req_path c = ''/''"
  shows "fst (fetch (default_export env) c vars) =
         \<lparr>status = 200, body = TextBody ''Hello Hono!''\<rparr>"
  using assms
  by (simp add: default_export_def Hono_fetch_def dispatch_root getPath_root c_text_def)

theorem get_root_hello_witness:
  "req_method \<lparr>req_method = ''GET'', req_path = ''/'', req_query = ''x=1'',
                req_headers = [(''accept'', ''*/*'')]\<rparr> = ''GET''
   \<and> req_path \<lparr>req_method = ''GET'', req_path = ''/'', req_query = ''x=1'',
                req_headers = [(''accept'', ''*/*'')]\<rparr> = ''/''
   \<and> fst (fetch (default_export Map.empty)
          \<lparr>req_method = ''GET'', req_path = ''/'', req_query = ''x=1'',
           req_headers = [(''accept'', ''*/*'')]\<rparr> initial) =
       \<lparr>status = 200, body = TextBody ''Hello Hono!''\<rparr>"
  using get_root_hello
    [of "\<lparr>req_method = ''GET'', req_path = ''/'', req_query = ''x=1'',
          req_headers = [(''accept'', ''*/*'')]\<rparr>" Map.empty initial]
  by simp

text \<open>
  C1. Every GET request to \<open>/api/todos\<close>, at any moment of the life of a process (after
  any requests \<open>cs\<close> served before it), is answered with status 200 and the JSON array
  of the three sample records, in the order Alice, Bob, Hehe.
\<close>

theorem get_api_todos:
  assumes "req_method c = ''GET''" and "req_path c = ''/api/todos''"
  shows "fst (fetch (default_export env) c (run initial cs)) =
         \<lparr>status = 200, body = JsonBody (JArray
            [JObject [(''id'', JNumber 1), (''name'', JString ''Alice'')],
             JObject [(''id'', JNumber 2), (''name'', JString ''Bob'')],
             JObject [(''id'', JNumber 3), (''name'', JString ''Hehe'')]])\<rparr>"
proof -
  have "run initial cs = initial"
    by (rule run_keeps_vars)
  moreover have "req_method c \<noteq> ''HEAD''"
    using assms(1) by simp
  ultimately show ?thesis
    using assms(2)
    by (simp add: default_export_def Hono_fetch_def assms(1) dispatch_todos getPath_todos
        c_json_def initial_def)
qed

theorem get_api_todos_witness:
  "req_method \<lparr>req_method = ''GET'', req_path = ''/api/todos'', req_query = [],
                req_headers = []\<rparr> = ''GET''
   \<and> req_path \<lparr>req_method = ''GET'', req_path = ''/api/todos'', req_query = [],
                req_headers = []\<rparr> = ''/api/todos''
   \<and> fst (fetch (default_export Map.empty)
          \<lparr>req_method = ''GET'', req_path = ''/api/todos'', req_query = [], req_headers = []\<rparr>
          (run initial
            [\<lparr>req_method = ''POST'', req_path = ''/api/todos'', req_query = [],
              req_headers = []\<rparr>,
             \<lparr>req_method = ''GET'', req_path = ''/'', req_query = [], req_headers = []\<rparr>])) =
       \<lparr>status = 200, body = JsonBody (JArray
          [JObject [(''id'', JNumber 1), (''name'', JString ''Alice'')],
           JObject [(''id'', JNumber 2), (''name'', JString ''Bob'')],
           JObject [(''id'', JNumber 3), (''name'', JString ''Hehe'')]])\<rparr>"
  using get_api_todos
    [of "\<lparr>req_method = ''GET'', req_path = ''/api/todos'', req_query = [],
          req_headers = []\<rparr>" Map.empty
        "[\<lparr>req_method = ''POST'', req_path = ''/api/todos'', req_query = [],
           req_headers = []\<rparr>,
          \<lparr>req_method = ''GET'', req_path = ''/'', req_query = [], req_headers = []\<rparr>]"]
  by simp

text \<open>
  C7. The default export sets the port to 3333 whatever the environment of the process
  holds: the port is a literal of the source.
\<close>

theorem port_is_3333: "port (default_export env) = 3333"
  by (simp add: default_export_def)

text \<open>
  C5. Any two GET requests to \<open>/api/todos\<close> of one process, whatever was served before
  each of them (\<open>cs1\<close>, \<open>cs2\<close>), get the same response: same status, same body, hence
  the same bytes. No request changes the list: the variables after any request are the
  variables before it, and \<open>todos\<close> is, at every moment, the list the process started
  with.
\<close>

theorem todos_responses_identical:
  assumes "req_method c1 = ''GET''" and "req_path c1 = ''/api/todos''"
      and "req_method c2 = ''GET''" and "req_path c2 = ''/api/todos''"
  shows "fst (fetch (default_export env) c1 (run initial cs1)) =
         fst (fetch (default_export env) c2 (run initial cs2))
       \<and> todos (snd (fetch (default_export env) c vars)) = todos vars
       \<and> todos (run initial cs1) = todos initial
       \<and> todos (run initial cs2) = todos initial"
proof -
  have same: "run initial cs1 = initial" "run initial cs2 = initial"
    by (rule run_keeps_vars)+
  have r1: "fst (Hono_fetch app c1 initial) = c_json (todos initial) 200"
    using assms(1,2) by (simp add: Hono_fetch_def dispatch_todos getPath_todos)
  have r2: "fst (Hono_fetch app c2 initial) = c_json (todos initial) 200"
    using assms(3,4) by (simp add: Hono_fetch_def dispatch_todos getPath_todos)
  show ?thesis
    by (simp add: same r1 r2 default_export_def fetch_keeps_vars)
qed

theorem todos_responses_identical_witness:
  "req_method \<lparr>req_method = ''GET'', req_path = ''/api/todos'', req_query = [],
                req_headers = []\<rparr> = ''GET''
   \<and> req_path \<lparr>req_method = ''GET'', req_path = ''/api/todos'', req_query = [],
                req_headers = []\<rparr> = ''/api/todos''
   \<and> req_method \<lparr>req_method = ''GET'', req_path = ''/api/todos'', req_query = ''page=2'',
                req_headers = [(''accept'', ''application/json'')]\<rparr> = ''GET''
   \<and> req_path \<lparr>req_method = ''GET'', req_path = ''/api/todos'', req_query = ''page=2'',
                req_headers = [(''accept'', ''application/json'')]\<rparr> = ''/api/todos''
   \<and> fst (fetch (default_export Map.empty)
          \<lparr>req_method = ''GET'', req_path = ''/api/todos'', req_query = [], req_headers = []\<rparr>
          (run initial [])) =
       fst (fetch (default_export Map.empty)
          \<lparr>req_method = ''GET'', req_path = ''/api/todos'', req_query = ''page=2'',
           req_headers = [(''accept'', ''application/json'')]\<rparr>
          (run initial
            [\<lparr>req_method = ''GET'', req_path = ''/api/todos'', req_query = [], req_headers = []\<rparr>,
             \<lparr>req_method = ''DELETE'', req_path = ''/api/todos'', req_query = [],
              req_headers = []\<rparr>]))"
  using todos_responses_identical
    [of "\<lparr>req_method = ''GET'', req_path = ''/api/todos'', req_query = [], req_headers = []\<rparr>"
        "\<lparr>req_method = ''GET'', req_path = ''/api/todos'', req_query = ''page=2'',
          req_headers = [(''accept'', ''application/json'')]\<rparr>"
        Map.empty "[]"
        "[\<lparr>req_method = ''GET'', req_path = ''/api/todos'', req_query = [], req_headers = []\<rparr>,
          \<lparr>req_method = ''DELETE'', req_path = ''/api/todos'', req_query = [],
           req_headers = []\<rparr>]"]
  by simp

text \<open>
  A path that is written with escapes is routed as the path it decodes to: a GET request
  to \<open>/api/%74odos\<close> is answered with the list, and one to \<open>/api%2Ftodos\<close> is not,
  since the escape of a slash stays as written.
\<close>

lemma getPath_escaped_t:
  "getPath \<lparr>req_method = ''GET'', req_path = ''/api/%74odos'', req_query = [], req_headers = []\<rparr>
   = ''/api/todos''"
  by code_simp

lemma getPath_escaped_slash:
  "getPath \<lparr>req_method = ''GET'', req_path = ''/api%2Ftodos'', req_query = [], req_headers = []\<rparr>
   = ''/api%2Ftodos''"
  by code_simp

lemma escaped_path_is_routed:
  "fst (Hono_fetch app
     \<lparr>req_method = ''GET'', req_path = ''/api/%74odos'', req_query = [], req_headers = []\<rparr>
     initial) = c_json (todos initial) 200"
  by (simp add: Hono_fetch_def dispatch_todos getPath_escaped_t)

text \<open>
  C10, as the claim states it, fails: a HEAD request to \<open>/\<close> has a method that is not
  GET, and the service answers it with status 200 (through the GET route, without the
  body), not with 404.
\<close>

theorem head_root_is_200:
  "req_method \<lparr>req_method = ''HEAD'', req_path = ''/'', req_query = [], req_headers = []\<rparr>
     \<noteq> ''GET''
   \<and> fst (Hono_fetch app
        \<lparr>req_method = ''HEAD'', req_path = ''/'', req_query = [], req_headers = []\<rparr> initial) =
       \<lparr>status = 200, body = NoBody\<rparr>"
  by (simp add: Hono_fetch_def dispatch_root getPath_root c_text_def)

text \<open>
  C10, amended. The service registers two routes, GET \<open>/\<close> and GET \<open>/api/todos\<close>. Every
  request whose path as Hono routes it (\<open>getPath\<close>: the path percent-decoded) is neither
  of the two, or whose method is neither GET nor HEAD, gets the framework's default
  not-found response: status 404, with the body \<open>404 Not Found\<close>, which a HEAD request
  gets without the body. A path written without a \<open>%\<close> is routed as it is written.
\<close>

theorem unmatched_request_not_found:
  assumes "\<not> ((req_method c = ''GET'' \<or> req_method c = ''HEAD'') \<and>
              (getPath c = ''/'' \<or> getPath c = ''/api/todos''))"
  shows "map (\<lambda>(m, p, h). (m, p)) (routes app) = [(''GET'', ''/''), (''GET'', ''/api/todos'')]
       \<and> status (fst (Hono_fetch app c vars)) = 404
       \<and> fst (Hono_fetch app c vars) =
           (if req_method c = ''HEAD'' then \<lparr>status = 404, body = NoBody\<rparr>
            else \<lparr>status = 404, body = TextBody ''404 Not Found''\<rparr>)
       \<and> (CHR ''%'' \<notin> set (req_path c) \<longrightarrow> getPath c = req_path c)"
proof (cases "req_method c = ''HEAD''")
  case True
  with assms have "\<not> (''GET'' = ''GET'' \<and> (getPath c = ''/'' \<or> getPath c = ''/api/todos''))"
    by simp
  then have "dispatch app ''GET'' c vars = (c_text ''404 Not Found'' 404, vars)"
    by (rule dispatch_not_found)
  with True show ?thesis
    by (simp add: Hono_fetch_def routes_app c_text_def getPath_plain)
next
  case False
  with assms have "\<not> (req_method c = ''GET'' \<and> (getPath c = ''/'' \<or> getPath c = ''/api/todos''))"
    by simp
  then have "dispatch app (req_method c) c vars = (c_text ''404 Not Found'' 404, vars)"
    by (rule dispatch_not_found)
  with False show ?thesis
    by (simp add: Hono_fetch_def routes_app c_text_def getPath_plain)
qed

theorem unmatched_request_not_found_witness:
  "\<not> ((req_method \<lparr>req_method = ''GET'', req_path = ''/api%2Ftodos'', req_query = [],
                    req_headers = []\<rparr> = ''GET''
        \<or> req_method \<lparr>req_method = ''GET'', req_path = ''/api%2Ftodos'', req_query = [],
                    req_headers = []\<rparr> = ''HEAD'')
       \<and> (getPath \<lparr>req_method = ''GET'', req_path = ''/api%2Ftodos'', req_query = [],
                    req_headers = []\<rparr> = ''/''
        \<or> getPath \<lparr>req_method = ''GET'', req_path = ''/api%2Ftodos'', req_query = [],
                    req_headers = []\<rparr> = ''/api/todos''))
   \<and> fst (Hono_fetch app
        \<lparr>req_method = ''GET'', req_path = ''/api%2Ftodos'', req_query = [], req_headers = []\<rparr>
        initial) =
       \<lparr>status = 404, body = TextBody ''404 Not Found''\<rparr>"
  using unmatched_request_not_found
    [of "\<lparr>req_method = ''GET'', req_path = ''/api%2Ftodos'', req_query = [], req_headers = []\<rparr>"
        initial]
  by (simp add: getPath_escaped_slash)

section \<open>Properties of the client\<close>

lemma status_400_not_ok: "400 \<le> res_status r \<Longrightarrow> \<not> ok r"
  by (simp add: ok_def)

text \<open>
  C2. When \<open>fetch\<close> resolves to a response that is not ok (in particular one with a status
  of 400 or more), \<open>fetchTodos\<close> throws an \<open>Error\<close> whose message is
  \<open>Network response was not ok\<close>, and returns no value.
\<close>

theorem fetchTodos_not_ok:
  assumes "net ''/api/todos'' w = (Inr r, w1)" and "\<not> ok r \<or> 400 \<le> res_status r"
  shows "fst (fetchTodos net w) = Inl (Error ''Network response was not ok'')
       \<and> (\<forall>v. fst (fetchTodos net w) \<noteq> Inr v)"
proof -
  from assms(2) have "\<not> ok r"
    using status_400_not_ok by blast
  with assms(1) show ?thesis
    by (simp add: fetchTodos_def)
qed

theorem fetchTodos_not_ok_witness:
  "mock_fetch \<lparr>res_status = 500, res_json = Inr (JString ''boom'')\<rparr> 20
      ''/api/todos'' \<lparr>now = 0, slept = []\<rparr> =
     (Inr \<lparr>res_status = 500, res_json = Inr (JString ''boom'')\<rparr>, \<lparr>now = 20, slept = []\<rparr>)
   \<and> \<not> ok \<lparr>res_status = 500, res_json = Inr (JString ''boom'')\<rparr>
   \<and> 400 \<le> res_status \<lparr>res_status = 500, res_json = Inr (JString ''boom'')\<rparr>
   \<and> fst (fetchTodos (mock_fetch \<lparr>res_status = 500, res_json = Inr (JString ''boom'')\<rparr> 20)
        \<lparr>now = 0, slept = []\<rparr>) = Inl (Error ''Network response was not ok'')"
  using fetchTodos_not_ok
    [of "mock_fetch \<lparr>res_status = 500, res_json = Inr (JString ''boom'')\<rparr> 20"
        "\<lparr>now = 0, slept = []\<rparr>" "\<lparr>res_status = 500, res_json = Inr (JString ''boom'')\<rparr>"
        "\<lparr>now = 20, slept = []\<rparr>"]
  by (simp add: ok_def mock_fetch_def)

text \<open>
  C3. When \<open>fetch\<close> resolves to an ok response whose body parses to \<open>b\<close>, \<open>fetchTodos\<close>
  returns \<open>b\<close> itself (for a sequence: the same elements in the same order), and it
  returns in the world reached by awaiting \<open>sleep(1000)\<close> after the response arrived:
  1000 milliseconds later.
\<close>

theorem fetchTodos_success:
  assumes "net ''/api/todos'' w = (Inr r, w1)" and "ok r" and "res_json r = Inr b"
  shows "fetchTodos net w = (Inr b, sleep 1000 w1)
       \<and> now (snd (fetchTodos net w)) = now w1 + 1000
       \<and> slept (snd (fetchTodos net w)) = slept w1 @ [1000]"
  using assms by (simp add: fetchTodos_def sleep_def)

theorem fetchTodos_success_witness:
  "mock_fetch \<lparr>res_status = 200, res_json = Inr [\<lparr>id' = 2, name = ''Bob''\<rparr>,
        \<lparr>id' = 1, name = ''Alice''\<rparr>]\<rparr> 20 ''/api/todos'' \<lparr>now = 0, slept = []\<rparr> =
     (Inr \<lparr>res_status = 200, res_json = Inr [\<lparr>id' = 2, name = ''Bob''\<rparr>,
        \<lparr>id' = 1, name = ''Alice''\<rparr>]\<rparr>, \<lparr>now = 20, slept = []\<rparr>)
   \<and> ok \<lparr>res_status = 200, res_json = Inr [\<lparr>id' = 2, name = ''Bob''\<rparr>,
        \<lparr>id' = 1, name = ''Alice''\<rparr>]\<rparr>
   \<and> fetchTodos (mock_fetch \<lparr>res_status = 200, res_json = Inr [\<lparr>id' = 2, name = ''Bob''\<rparr>,
        \<lparr>id' = 1, name = ''Alice''\<rparr>]\<rparr> 20) \<lparr>now = 0, slept = []\<rparr> =
     (Inr [\<lparr>id' = 2, name = ''Bob''\<rparr>, \<lparr>id' = 1, name = ''Alice''\<rparr>],
      \<lparr>now = 1020, slept = [1000]\<rparr>)"
  using fetchTodos_success
    [of "mock_fetch \<lparr>res_status = 200, res_json = Inr [\<lparr>id' = 2, name = ''Bob''\<rparr>,
           \<lparr>id' = 1, name = ''Alice''\<rparr>]\<rparr> 20"
        "\<lparr>now = 0, slept = []\<rparr>"
        "\<lparr>res_status = 200, res_json = Inr [\<lparr>id' = 2, name = ''Bob''\<rparr>,
           \<lparr>id' = 1, name = ''Alice''\<rparr>]\<rparr>"
        "\<lparr>now = 20, slept = []\<rparr>"
        "[\<lparr>id' = 2, name = ''Bob''\<rparr>, \<lparr>id' = 1, name = ''Alice''\<rparr>]"]
  by (simp add: ok_def mock_fetch_def sleep_def)

text \<open>
  C8. When \<open>fetch\<close> resolves to a response that is not ok, \<open>fetchTodos\<close> throws in the very
  world in which the response arrived: the clock has not moved and no delay has been
  awaited. The delay belongs to the success path only.
\<close>

theorem fetchTodos_failure_no_delay:
  assumes "net ''/api/todos'' w = (Inr r, w1)" and "\<not> ok r"
  shows "fetchTodos net w = (Inl (Error ''Network response was not ok''), w1)
       \<and> now (snd (fetchTodos net w)) = now w1
       \<and> slept (snd (fetchTodos net w)) = slept w1"
  using assms by (simp add: fetchTodos_def)

theorem fetchTodos_failure_no_delay_witness:
  "mock_fetch \<lparr>res_status = 404, res_json = (Inl (SyntaxError ''Unexpected token'') :: js_error + json)\<rparr> 35
      ''/api/todos'' \<lparr>now = 100, slept = []\<rparr> =
     (Inr \<lparr>res_status = 404, res_json = Inl (SyntaxError ''Unexpected token'')\<rparr>,
      \<lparr>now = 135, slept = []\<rparr>)
   \<and> \<not> ok \<lparr>res_status = 404, res_json = (Inl (SyntaxError ''Unexpected token'') :: js_error + json)\<rparr>
   \<and> fetchTodos
        (mock_fetch \<lparr>res_status = 404, res_json = (Inl (SyntaxError ''Unexpected token'') :: js_error + json)\<rparr> 35)
        \<lparr>now = 100, slept = []\<rparr> =
     (Inl (Error ''Network response was not ok''), \<lparr>now = 135, slept = []\<rparr>)"
  using fetchTodos_failure_no_delay
    [of "mock_fetch \<lparr>res_status = 404, res_json = (Inl (SyntaxError ''Unexpected token'') :: js_error + json)\<rparr> 35"
        "\<lparr>now = 100, slept = []\<rparr>"
        "\<lparr>res_status = 404, res_json = Inl (SyntaxError ''Unexpected token'')\<rparr>"
        "\<lparr>now = 135, slept = []\<rparr>"]
  by (simp add: ok_def mock_fetch_def)

text \<open>
  C9. \<open>fetchTodos\<close> does not look at the parsed body: when \<open>fetch\<close> resolves to an ok
  response whose body parses to a value \<open>v\<close> of any type whatsoever, it returns
  \<open>v\<close>: so also a body that is a JSON object and no array of records.
\<close>

theorem fetchTodos_no_validation:
  assumes "net ''/api/todos'' w = (Inr r, w1)" and "ok r" and "res_json r = Inr v"
  shows "fst (fetchTodos net w) = Inr v"
  using assms by (simp add: fetchTodos_def)

theorem fetchTodos_no_validation_witness:
  "mock_fetch \<lparr>res_status = 200, res_json = Inr (JObject [(''error'', JString ''nope'')])\<rparr> 0
      ''/api/todos'' \<lparr>now = 0, slept = []\<rparr> =
     (Inr \<lparr>res_status = 200, res_json = Inr (JObject [(''error'', JString ''nope'')])\<rparr>,
      \<lparr>now = 0, slept = []\<rparr>)
   \<and> ok \<lparr>res_status = 200, res_json = Inr (JObject [(''error'', JString ''nope'')])\<rparr>
   \<and> \<not> is_array (JObject [(''error'', JString ''nope'')])
   \<and> fst (fetchTodos
        (mock_fetch \<lparr>res_status = 200, res_json = Inr (JObject [(''error'', JString ''nope'')])\<rparr> 0)
        \<lparr>now = 0, slept = []\<rparr>) = Inr (JObject [(''error'', JString ''nope'')])"
  using fetchTodos_no_validation
    [of "mock_fetch \<lparr>res_status = 200, res_json = Inr (JObject [(''error'', JString ''nope'')])\<rparr> 0"
        "\<lparr>now = 0, slept = []\<rparr>"
        "\<lparr>res_status = 200, res_json = Inr (JObject [(''error'', JString ''nope'')])\<rparr>"
        "\<lparr>now = 0, slept = []\<rparr>"
        "JObject [(''error'', JString ''nope'')]"]
  by (simp add: ok_def mock_fetch_def)

text \<open>
  C6. For every value of the flags the component reads (\<open>isLoading\<close>, its pending flag,
  \<open>error\<close> and \<open>data\<close>), what it renders is one of the three presentations: the loading
  panel when \<open>isLoading\<close> holds, otherwise the error panel with the message of the error
  when there is an error, otherwise the list view of the data. The three presentations
  are different from one another, so it is exactly one of them.
\<close>

theorem TanStackQueryDemo_presentations:
  "TanStackQueryDemo q =
     (if isLoading q then loading_panel
      else case error q of
        Some e \<Rightarrow> error_panel (message e)
      | None \<Rightarrow> list_view (data q))
   \<and> loading_panel \<noteq> error_panel msg
   \<and> loading_panel \<noteq> list_view d
   \<and> error_panel msg \<noteq> list_view d"
  by (simp add: TanStackQueryDemo_def loading_panel_def error_panel_def list_view_def
      list_item_def panel_def split: option.split)

end
